theory Spec2Isabelle
  imports Main
begin

section \<open>Strings\<close>

text \<open>
  A Python \<open>str\<close> is modelled as a \<^typ>\<open>string\<close> whose characters are the code points
  below 256.  On these code points \<open>str.isspace\<close>, which decides what \<open>str.strip()\<close>
  removes and what the pattern \<open>\s\<close> accepts, holds for 9 to 13, 28 to 32, 133 and 160;
  \<open>str.lower()\<close> adds 32 to the capitals 65 to 90 and 192 to 222 (215 apart).
\<close>

definition isspace :: "char \<Rightarrow> bool" where
  "isspace c =
     (let n = (of_char c :: nat)
      in (9 \<le> n \<and> n \<le> 13) \<or> (28 \<le> n \<and> n \<le> 32) \<or> n = 133 \<or> n = 160)"

definition lower_char :: "char \<Rightarrow> char" where
  "lower_char c =
     (let n = (of_char c :: nat)
      in if (65 \<le> n \<and> n \<le> 90) \<or> (192 \<le> n \<and> n \<le> 222 \<and> n \<noteq> 215)
         then char_of (n + 32) else c)"

definition lower :: "string \<Rightarrow> string" where
  "lower s = map lower_char s"

definition strip :: "string \<Rightarrow> string" where
  "strip s = rev (dropWhile isspace (rev (dropWhile isspace s)))"

text \<open>\<open>s.split(sep)[0]\<close> for a one-character separator: the text before its first occurrence.\<close>

definition split_first :: "char \<Rightarrow> string \<Rightarrow> string" where
  "split_first sep s = takeWhile (\<lambda>c. c \<noteq> sep) s"

text \<open>\<open>s.endswith("&")\<close> and \<open>s.startswith(p)\<close>.\<close>

definition endswith_amp :: "string \<Rightarrow> bool" where
  "endswith_amp s = (s \<noteq> [] \<and> last s = CHR ''&'')"

definition startswith :: "string \<Rightarrow> string \<Rightarrow> bool" where
  "startswith p s = (take (length p) s = p)"

section \<open>iter_statements\<close>

text \<open>
  The body of the \<open>for\<close> loop of \<open>iter_statements\<close>, with the accumulation buffer as
  an argument, and the statements yielded as the result.  After the loop the buffer is
  yielded by the unguarded \<open>yield buffer\<close>.
\<close>

definition clean_line :: "string \<Rightarrow> string" where
  "clean_line line = strip (split_first CHR ''!'' line)"

fun iter_loop :: "string \<Rightarrow> string list \<Rightarrow> string list" where
  "iter_loop buffer [] = [buffer]"
| "iter_loop buffer (l # content) =
     (let line = clean_line l
      in if endswith_amp line
         then iter_loop (buffer @ butlast line) content
         else (buffer @ line) # iter_loop [] content)"

definition iter_statements :: "string list \<Rightarrow> string list" where
  "iter_statements content = iter_loop [] content"

text \<open>A raw line is continued when its cleaned text ends with the marker.\<close>

definition continued :: "string \<Rightarrow> bool" where
  "continued l = endswith_amp (clean_line l)"

text \<open>The text a continued line contributes: its cleaned text without the marker.\<close>

definition continuation_text :: "string \<Rightarrow> string" where
  "continuation_text l = butlast (clean_line l)"

section \<open>Exceptions\<close>

text \<open>
  The exception classes the module can raise, with the part of Python's built-in
  hierarchy that relates them: \<open>UnboundLocalError\<close> is a subclass of \<open>NameError\<close>.
  A raised exception carries its class and its subject: the attribute or the variable
  that is missing, the function called with the wrong arguments, or the message of a
  \<open>raise\<close> statement.
\<close>

datatype exc_class = Exception | AttributeError | TypeError | NameError | UnboundLocalError

datatype py_error = Raise exc_class string

fun exc_mro :: "exc_class \<Rightarrow> exc_class list" where
  "exc_mro Exception = [Exception]"
| "exc_mro AttributeError = [AttributeError, Exception]"
| "exc_mro TypeError = [TypeError, Exception]"
| "exc_mro NameError = [NameError, Exception]"
| "exc_mro UnboundLocalError = [UnboundLocalError, NameError, Exception]"

fun isinstance_exc :: "py_error \<Rightarrow> exc_class \<Rightarrow> bool" where
  "isinstance_exc (Raise c subject) k = (k \<in> set (exc_mro c))"

section \<open>The event classes\<close>

text \<open>
  An instance is its class and its attribute dictionary, in insertion order.  The values
  that reach an attribute are strings, booleans, \<open>None\<close> and instances.
\<close>

datatype class_name = Object | Event | Use | Block | EndOfBlock | LoopJump | Call | Goto | Jump

datatype pyval = VNone | VBool bool | VStr string | VObj class_name "(string \<times> pyval) list"

text \<open>The methods each class body defines, and the method resolution order of each class.\<close>

fun class_methods :: "class_name \<Rightarrow> string list" where
  "class_methods Object = [''__init__'', ''__str__'']"
| "class_methods Event = [''__init__'', ''__str__'']"
| "class_methods Use = [''__init__'']"
| "class_methods Block = [''__init__'']"
| "class_methods EndOfBlock = [''__init__'']"
| "class_methods LoopJump = [''__ini__'']"
| "class_methods Call = [''__init__'']"
| "class_methods Goto = [''__init__'']"
| "class_methods Jump = [''__init__'']"

fun mro :: "class_name \<Rightarrow> class_name list" where
  "mro Object = [Object]"
| "mro Event = [Event, Object]"
| "mro Use = [Use, Event, Object]"
| "mro Block = [Block, Event, Object]"
| "mro EndOfBlock = [EndOfBlock, Event, Object]"
| "mro LoopJump = [LoopJump, Event, Object]"
| "mro Call = [Call, Object]"
| "mro Goto = [Goto, Object]"
| "mro Jump = [Jump, Event, Object]"

text \<open>The class whose definition of a method an instance of \<open>c\<close> uses.\<close>

definition resolve :: "class_name \<Rightarrow> string \<Rightarrow> class_name option" where
  "resolve c m = find (\<lambda>k. m \<in> set (class_methods k)) (mro c)"

text \<open>
  \<open>self.name = v\<close> and \<open>self.name\<close>.  No class of the module has a class attribute
  other than its methods, so reading a data attribute looks in the instance only.
\<close>

fun update_attr :: "string \<Rightarrow> pyval \<Rightarrow> (string \<times> pyval) list \<Rightarrow> (string \<times> pyval) list" where
  "update_attr name v [] = [(name, v)]"
| "update_attr name v ((k, w) # attrs) =
     (if k = name then (name, v) # attrs else (k, w) # update_attr name v attrs)"

fun setattr :: "pyval \<Rightarrow> string \<Rightarrow> pyval \<Rightarrow> pyval" where
  "setattr (VObj c attrs) name v = VObj c (update_attr name v attrs)"
| "setattr self name v = self"

fun getattr :: "pyval \<Rightarrow> string \<Rightarrow> py_error + pyval" where
  "getattr (VObj c attrs) name =
     (case map_of attrs name of
        None \<Rightarrow> Inl (Raise AttributeError name)
      | Some v \<Rightarrow> Inr v)"
| "getattr self name = Inl (Raise AttributeError name)"

text \<open>
  The initializers, each taking \<open>self\<close> and the positional arguments of the call; a call
  with another number of arguments raises \<open>TypeError\<close>.  \<open>super().__init__\<close> in
  \<open>Use\<close>, \<open>Block\<close> and \<open>Jump\<close> is \<open>Event.__init__\<close>.  The body of
  \<open>EndOfBlock.__init__\<close> is a docstring and nothing else.  \<open>LoopJump.__ini__\<close> is an
  ordinary method that no code of the module calls.
\<close>

fun Event_init :: "pyval \<Rightarrow> pyval list \<Rightarrow> py_error + pyval" where
  "Event_init self [statement] = Inr (setattr self ''statement'' statement)"
| "Event_init self args = Inl (Raise TypeError ''__init__'')"

fun Use_init :: "pyval \<Rightarrow> pyval list \<Rightarrow> py_error + pyval" where
  "Use_init self [statement, modname] =
     (case Event_init self [statement] of
        Inl e \<Rightarrow> Inl e
      | Inr self' \<Rightarrow> Inr (setattr self' ''modname'' modname))"
| "Use_init self args = Inl (Raise TypeError ''__init__'')"

fun Block_init :: "pyval \<Rightarrow> pyval list \<Rightarrow> py_error + pyval" where
  "Block_init self [statement, finite'] =
     (case Event_init self [statement] of
        Inl e \<Rightarrow> Inl e
      | Inr self' \<Rightarrow> Inr (setattr self' ''finite'' finite'))"
| "Block_init self args = Inl (Raise TypeError ''__init__'')"

fun EndOfBlock_init :: "pyval \<Rightarrow> pyval list \<Rightarrow> py_error + pyval" where
  "EndOfBlock_init self [statement] = Inr self"
| "EndOfBlock_init self args = Inl (Raise TypeError ''__init__'')"

fun LoopJump_ini :: "pyval \<Rightarrow> pyval list \<Rightarrow> py_error + pyval" where
  "LoopJump_ini self [leave] = Inr (setattr self ''leave'' leave)"
| "LoopJump_ini self args = Inl (Raise TypeError ''__ini__'')"

fun Call_init :: "pyval \<Rightarrow> pyval list \<Rightarrow> py_error + pyval" where
  "Call_init self [target_name] = Inr (setattr self ''target_name'' target_name)"
| "Call_init self args = Inl (Raise TypeError ''__init__'')"

fun Goto_init :: "pyval \<Rightarrow> pyval list \<Rightarrow> py_error + pyval" where
  "Goto_init self [label_name] = Inr (setattr self ''label_name'' label_name)"
| "Goto_init self args = Inl (Raise TypeError ''__init__'')"

fun Jump_init :: "pyval \<Rightarrow> pyval list \<Rightarrow> py_error + pyval" where
  "Jump_init self [statement, target] =
     (case Event_init self [statement] of
        Inl e \<Rightarrow> Inl e
      | Inr self' \<Rightarrow> Inr (setattr self' ''target'' target))"
| "Jump_init self args = Inl (Raise TypeError ''__init__'')"

fun Object_init :: "pyval \<Rightarrow> pyval list \<Rightarrow> py_error + pyval" where
  "Object_init self [] = Inr self"
| "Object_init self args = Inl (Raise TypeError ''__init__'')"

text \<open>The \<open>__init__\<close> that the class \<open>k\<close> defines; \<open>LoopJump\<close> defines none.\<close>

fun init_of :: "class_name \<Rightarrow> (pyval \<Rightarrow> pyval list \<Rightarrow> py_error + pyval) option" where
  "init_of Object = Some Object_init"
| "init_of Event = Some Event_init"
| "init_of Use = Some Use_init"
| "init_of Block = Some Block_init"
| "init_of EndOfBlock = Some EndOfBlock_init"
| "init_of LoopJump = None"
| "init_of Call = Some Call_init"
| "init_of Goto = Some Goto_init"
| "init_of Jump = Some Jump_init"

text \<open>
  The call \<open>c(args)\<close>: a new instance of \<open>c\<close> with no attribute, handed to the
  \<open>__init__\<close> found along the method resolution order of \<open>c\<close>.
\<close>

definition new :: "class_name \<Rightarrow> pyval list \<Rightarrow> py_error + pyval" where
  "new c args =
     (case resolve c ''__init__'' of
        None \<Rightarrow> Inl (Raise AttributeError ''__init__'')
      | Some k \<Rightarrow>
          (case init_of k of
             None \<Rightarrow> Inl (Raise AttributeError ''__init__'')
           | Some init \<Rightarrow> init (VObj c []) args))"

text \<open>
  \<open>Event.__str__\<close>: \<open>self.statement + " |=| " + str(type(self))\<close>.  The module is
  \<open>fortrunner/follow.py\<close>, so the text of a class is its name qualified by
  \<open>fortrunner.follow\<close>.  Adding a string to a value that is not a string raises
  \<open>TypeError\<close>.
\<close>

fun class_str :: "class_name \<Rightarrow> string" where
  "class_str Object = ''object''"
| "class_str Event = ''fortrunner.follow.Event''"
| "class_str Use = ''fortrunner.follow.Use''"
| "class_str Block = ''fortrunner.follow.Block''"
| "class_str EndOfBlock = ''fortrunner.follow.EndOfBlock''"
| "class_str LoopJump = ''fortrunner.follow.LoopJump''"
| "class_str Call = ''fortrunner.follow.Call''"
| "class_str Goto = ''fortrunner.follow.Goto''"
| "class_str Jump = ''fortrunner.follow.Jump''"

definition str_type :: "class_name \<Rightarrow> string" where
  "str_type c = ''<class '' @ [CHR 0x27] @ class_str c @ [CHR 0x27] @ ''>''"

fun Event_str :: "pyval \<Rightarrow> py_error + string" where
  "Event_str (VObj c attrs) =
     (case getattr (VObj c attrs) ''statement'' of
        Inl e \<Rightarrow> Inl e
      | Inr (VStr statement) \<Rightarrow> Inr (statement @ '' |=| '' @ str_type c)
      | Inr v \<Rightarrow> Inl (Raise TypeError ''+''))"
| "Event_str self = Inl (Raise AttributeError ''statement'')"

section \<open>Generators\<close>

text \<open>
  What running a generator to its end gives: the values it yields, in order, and how it
  stops, by returning or by raising.  A raise keeps what was yielded before it.
\<close>

type_synonym ('y, 'a) gen = "'y list \<times> (py_error + 'a)"

definition gen_return :: "'a \<Rightarrow> ('y, 'a) gen" where
  "gen_return x = ([], Inr x)"

definition gen_yield :: "'y \<Rightarrow> ('y, unit) gen" where
  "gen_yield v = ([v], Inr ())"

definition gen_eval :: "py_error + 'a \<Rightarrow> ('y, 'a) gen" where
  "gen_eval r = ([], r)"

definition gen_bind :: "('y, 'a) gen \<Rightarrow> ('a \<Rightarrow> ('y, 'b) gen) \<Rightarrow> ('y, 'b) gen" where
  "gen_bind m f =
     (case m of
        (ys, Inl e) \<Rightarrow> (ys, Inl e)
      | (ys, Inr x) \<Rightarrow> (case f x of (zs, r) \<Rightarrow> (ys @ zs, r)))"

fun gen_for :: "'a list \<Rightarrow> ('a \<Rightarrow> ('y, unit) gen) \<Rightarrow> ('y, unit) gen" where
  "gen_for [] body = gen_return ()"
| "gen_for (x # xs) body = gen_bind (body x) (\<lambda>_. gen_for xs body)"

text \<open>\<open>yield c(args)\<close>, and \<open>list(g)\<close>, which loses the yielded values when \<open>g\<close> raises.\<close>

definition yield_new :: "class_name \<Rightarrow> pyval list \<Rightarrow> (pyval, unit) gen" where
  "yield_new c args = gen_bind (gen_eval (new c args)) gen_yield"

definition list_of_gen :: "('y, unit) gen \<Rightarrow> py_error + 'y list" where
  "list_of_gen g = (case g of (ys, Inl e) \<Rightarrow> Inl e | (ys, Inr u) \<Rightarrow> Inr ys)"

section \<open>Patterns\<close>

text \<open>
  The character classes of the module's patterns.  \<open>A-z\<close> is the range of code points
  65 to 122, which holds both alphabets and the six characters between them, the
  underscore among them.
\<close>

definition word_char :: "char \<Rightarrow> bool" where
  "word_char c =
     (let n = (of_char c :: nat)
      in (48 \<le> n \<and> n \<le> 57) \<or> (65 \<le> n \<and> n \<le> 122) \<or> c = CHR ''_'')"

definition prefix_char :: "char \<Rightarrow> bool" where
  "prefix_char c = (word_char c \<or> c = CHR ''('' \<or> c = CHR '')'')"

text \<open>The text after a literal prefix, when the string starts with it.\<close>

definition after_prefix :: "string \<Rightarrow> string \<Rightarrow> string option" where
  "after_prefix p s = (if startswith p s then Some (drop (length p) s) else None)"

text \<open>
  \<open>\s+([0-9A-z_]+)\<close> at the start of a string: the group.  White space and the class
  are disjoint, so both repetitions can only match their longest runs.
\<close>

definition space_then_word :: "string \<Rightarrow> string option" where
  "space_then_word s =
     (let name = takeWhile word_char (dropWhile isspace s)
      in if takeWhile isspace s = [] \<or> name = [] then None else Some name)"

text \<open>A match object, with its groups 0 and 1.\<close>

datatype re_match = Match (group0: string) (group1: string)

text \<open>\<open>re.search("^use ([0-9A-z]+)", s)\<close>.\<close>

definition search_use_pattern :: "string \<Rightarrow> re_match option" where
  "search_use_pattern s =
     (case after_prefix ''use '' s of
        None \<Rightarrow> None
      | Some r \<Rightarrow>
          (let name = takeWhile word_char r
           in if name = [] then None else Some (Match (''use '' @ name) name)))"

section \<open>interpret_statement\<close>

text \<open>
  The body of \<open>interpret_statement\<close> reads names that it does not bind: the
  attributes \<open>searchiter\<close> and \<open>search\<close> of the module \<open>re\<close>, and the variable
  \<open>line\<close>.  Python looks them up when the body runs.  A \<open>bindings\<close> records what the
  four expressions built on them give:
  \<^item> \<open>searchiter\<close>: the call \<open>re.searchiter(pattern)\<close>;
  \<^item> \<open>search_pattern\<close>: the call \<open>re.search(pattern)\<close>, with the pattern alone;
  \<^item> \<open>line\<close>: the variable \<open>line\<close>;
  \<^item> \<open>search_use\<close>: the call \<open>re.search("^use ([0-9A-z]+)", line)\<close>.
\<close>

record bindings =
  searchiter :: "string \<Rightarrow> py_error + re_match list"
  search_pattern :: "string \<Rightarrow> py_error + re_match option"
  line :: "py_error + string"
  search_use :: "string \<Rightarrow> py_error + re_match option"

text \<open>
  What they give in this module.  The module \<open>re\<close> of the standard library has no
  attribute \<open>searchiter\<close>, so reading it raises \<open>AttributeError\<close>; its function
  \<open>search\<close> has two required parameters, so the call with the pattern alone raises
  \<open>TypeError\<close>; \<open>interpret_statement\<close> has no local variable \<open>line\<close> and the module
  no global one, so reading it raises \<open>NameError\<close>.
\<close>

definition module_bindings :: bindings where
  "module_bindings =
     \<lparr> searchiter = (\<lambda>pattern. Inl (Raise AttributeError ''searchiter'')),
       search_pattern = (\<lambda>pattern. Inl (Raise TypeError ''search'')),
       line = Inl (Raise NameError ''line''),
       search_use = (\<lambda>s. Inr (search_use_pattern s)) \<rparr>"

text \<open>The patterns of lines 105 and 111, which hold backslashes, and the others.\<close>

definition pattern_105 :: string where
  "pattern_105 = ''([0-9A-z_%]+)'' @ [CHR 0x5C] @ ''s*'' @ [CHR 0x5C] @ ''(''"

definition pattern_111 :: string where
  "pattern_111 = ''^(if|select'' @ [CHR 0x5C] @ ''s+case)'' @ [CHR 0x5C] @ ''s*(''"

text \<open>
  The body, statement by statement.  Line 102 rebinds \<open>statement\<close> to its lowercased,
  stripped copy, and every later use of \<open>statement\<close> is a use of that copy.
\<close>

definition interpret_statement_in ::
  "bindings \<Rightarrow> string \<Rightarrow> string list \<Rightarrow> (pyval, unit) gen" where
  "interpret_statement_in b statement0 func_names =
     (let statement = strip (lower statement0) in
      gen_bind (gen_eval (searchiter b pattern_105)) (\<lambda>matches.
      gen_bind (gen_for matches (\<lambda>match.
        (let name = group1 match
         in if name \<in> set func_names then gen_yield (VStr (group1 match))
            else gen_return ()))) (\<lambda>_.
      gen_bind (gen_eval (search_pattern b pattern_111)) (\<lambda>m.
      gen_bind (if m \<noteq> None then yield_new Block [VStr statement, VBool True]
                else gen_return ()) (\<lambda>_.
      gen_bind (gen_eval (search_pattern b ''^do'')) (\<lambda>m.
      gen_bind (if m \<noteq> None then yield_new Block [VStr statement, VBool False]
                else gen_return ()) (\<lambda>_.
      gen_bind (gen_eval (search_pattern b ''^call ([^(]+)'')) (\<lambda>match.
      gen_bind (case match of
                  None \<Rightarrow> gen_return ()
                | Some mt \<Rightarrow>
                    gen_bind (gen_eval (new Call [VStr (group1 mt)])) (\<lambda>target.
                    yield_new Jump [VStr statement, target])) (\<lambda>_.
      gen_bind (gen_eval (search_pattern b ''^goto ([0-9]+)'')) (\<lambda>match.
      gen_bind (case match of
                  None \<Rightarrow> gen_return ()
                | Some mt \<Rightarrow>
                    gen_bind (gen_eval (new Goto [VStr (group1 mt)])) (\<lambda>target.
                    yield_new Jump [VStr statement, target])) (\<lambda>_.
      gen_bind (gen_eval (search_pattern b ''^end '')) (\<lambda>m.
      gen_bind (if m \<noteq> None then yield_new EndOfBlock [VStr statement]
                else gen_return ()) (\<lambda>_.
      gen_bind (gen_eval (search_pattern b ''^cycle '')) (\<lambda>m.
      gen_bind (if m \<noteq> None
                then gen_bind (gen_eval (new LoopJump [VBool False])) (\<lambda>target.
                     yield_new Jump [VStr statement, target])
                else gen_return ()) (\<lambda>_.
      gen_bind (gen_eval (search_pattern b ''^exit '')) (\<lambda>m.
      gen_bind (if m \<noteq> None
                then gen_bind (gen_eval (new LoopJump [VBool True])) (\<lambda>target.
                     yield_new Jump [VStr statement, target])
                else gen_return ()) (\<lambda>_.
      gen_bind (gen_eval (line b)) (\<lambda>line_value.
      gen_bind (gen_eval (search_use b line_value)) (\<lambda>match.
      gen_bind (case match of
                  None \<Rightarrow> gen_return ()
                | Some mt \<Rightarrow> yield_new Use [VStr statement, VStr (group1 mt)]) (\<lambda>_.
      yield_new Event [VStr statement]))))))))))))))))))))"

definition interpret_statement :: "string \<Rightarrow> string list \<Rightarrow> (pyval, unit) gen" where
  "interpret_statement statement func_names =
     interpret_statement_in module_bindings statement func_names"

section \<open>follow_flow\<close>

text \<open>
  The body of \<open>follow_flow\<close> is the one statement \<open>raise Exception("not implemented")\<close>;
  it holds no \<open>yield\<close>, so the call itself raises.  The lookup function gives the lines
  of a routine, or nothing for a name it does not know.  The third parameter is \<open>line\<close>
  in the source.
\<close>

definition follow_flow ::
  "(string \<Rightarrow> int \<Rightarrow> int \<Rightarrow> string list option) \<Rightarrow> string \<Rightarrow> int
     \<Rightarrow> py_error + string list" where
  "follow_flow routines start_routine start_line = Inl (Raise Exception ''not implemented'')"

text \<open>A lookup function that knows one routine, whose body calls \<open>unknown_sub\<close>.\<close>

definition one_routine :: "string \<Rightarrow> int \<Rightarrow> int \<Rightarrow> string list option" where
  "one_routine name first_line last_line =
     (if name = ''main'' then Some [''x = 1'', ''call unknown_sub'', ''y = 2''] else None)"

section \<open>collect_routines\<close>

text \<open>
  \<open>collect_routines\<close> is modelled from the lines that \<open>f.readlines()\<close> gives; opening
  and reading the file is outside the model.  Both loops work on
  \<open>line.split("!")[0].lower().strip()\<close>.  The return annotation of the function names
  \<open>Optional\<close>, which the module does not import; what is modelled is the body of the
  function, as it runs where annotations are not evaluated when the function is defined.
\<close>

definition normal_line :: "string \<Rightarrow> string" where
  "normal_line l = strip (lower (split_first CHR ''!'' l))"

text \<open>
  \<open>^program\s+([0-9A-z_]+)\<close>, \<open>^module\s+([0-9A-z_]+)\<close> and
  \<open>^subroutine\s+([A-z0-9_]+)\<close>: the group of the match, if the pattern matches.
\<close>

definition match_program :: "string \<Rightarrow> string option" where
  "match_program s =
     (case after_prefix ''program'' s of None \<Rightarrow> None | Some r \<Rightarrow> space_then_word r)"

definition match_module :: "string \<Rightarrow> string option" where
  "match_module s =
     (case after_prefix ''module'' s of None \<Rightarrow> None | Some r \<Rightarrow> space_then_word r)"

definition match_subroutine :: "string \<Rightarrow> string option" where
  "match_subroutine s =
     (case after_prefix ''subroutine'' s of None \<Rightarrow> None | Some r \<Rightarrow> space_then_word r)"

text \<open>
  \<open>^([A-z0-9_()]+\s+)?function\s+([A-z0-9_]+)\<close>: group 2 of the match.  The optional
  group is tried first: the longest run of its class, then the longest run of white
  space; when that way fails the pattern is tried without the group.
\<close>

definition function_tail :: "string \<Rightarrow> string option" where
  "function_tail s =
     (case after_prefix ''function'' s of None \<Rightarrow> None | Some r \<Rightarrow> space_then_word r)"

definition match_function :: "string \<Rightarrow> string option" where
  "match_function s =
     (let r = dropWhile prefix_char s;
          with_group =
            (if takeWhile prefix_char s = [] \<or> takeWhile isspace r = [] then None
             else function_tail (dropWhile isspace r))
      in case with_group of
           Some name \<Rightarrow> Some name
         | None \<Rightarrow> function_tail s)"

text \<open>
  \<open>^end(\s+(subroutine|function))?$\<close>, where \<open>$\<close> holds at the end of the string and
  before a newline that ends it.
\<close>

definition at_dollar :: "string \<Rightarrow> bool" where
  "at_dollar s = (s = [] \<or> s = [CHR 0x0A])"

definition match_end :: "string \<Rightarrow> bool" where
  "match_end s =
     (case after_prefix ''end'' s of
        None \<Rightarrow> False
      | Some r \<Rightarrow>
          (let k = dropWhile isspace r;
               with_group =
                 (takeWhile isspace r \<noteq> [] \<and>
                  (case after_prefix ''subroutine'' k of
                     Some t \<Rightarrow> at_dollar t
                   | None \<Rightarrow>
                       (case after_prefix ''function'' k of
                          Some t \<Rightarrow> at_dollar t
                        | None \<Rightarrow> False)))
           in with_group \<or> at_dollar r))"

text \<open>
  The first loop.  Its result is the binding of \<open>ftype\<close>, which is \<open>None\<close> when the loop
  ends without having assigned it, and the value of \<open>fname\<close>, which starts as Python's
  \<open>None\<close>.
\<close>

fun detect_kind :: "string list \<Rightarrow> string option \<times> string option" where
  "detect_kind [] = (None, None)"
| "detect_kind (l # lines) =
     (let line = normal_line l
      in case match_program line of
           Some name \<Rightarrow> (Some ''program'', Some name)
         | None \<Rightarrow>
             (case match_module line of
                Some name \<Rightarrow> (Some ''module'', Some name)
              | None \<Rightarrow>
                  if startswith ''subroutine'' line then (Some ''flat'', None)
                  else detect_kind lines))"

text \<open>
  The generator \<open>iter_routines\<close>: the loop at index \<open>i\<close>, with the bindings of its locals
  \<open>start\<close> and \<open>routine_name\<close>, which are \<open>None\<close> until a header line assigns them.
  Building the tuple to yield reads \<open>routine_name\<close> first, and reading an unassigned
  local raises \<open>UnboundLocalError\<close>.
\<close>

fun iter_routines_loop ::
  "nat \<Rightarrow> nat option \<Rightarrow> string option \<Rightarrow> string list \<Rightarrow> (string \<times> nat \<times> nat, unit) gen" where
  "iter_routines_loop i start routine_name [] = gen_return ()"
| "iter_routines_loop i start routine_name (l # lines) =
     (let line = normal_line l;
          opened =
            (case match_subroutine line of
               Some name \<Rightarrow> (Some i, Some name)
             | None \<Rightarrow>
                 (case match_function line of
                    Some name \<Rightarrow> (Some i, Some name)
                  | None \<Rightarrow> (start, routine_name)))
      in gen_bind
           (if match_end line
            then (case snd opened of
                    None \<Rightarrow> gen_eval (Inl (Raise UnboundLocalError ''routine_name''))
                  | Some name \<Rightarrow>
                      (case fst opened of
                         None \<Rightarrow> gen_eval (Inl (Raise UnboundLocalError ''start''))
                       | Some first \<Rightarrow> gen_yield (name, first, i)))
            else gen_return ())
           (\<lambda>_. iter_routines_loop (Suc i) (fst opened) (snd opened) lines))"

definition iter_routines :: "string list \<Rightarrow> (string \<times> nat \<times> nat, unit) gen" where
  "iter_routines lines = iter_routines_loop 0 None None lines"

text \<open>
  \<open>return ftype, fname, list(iter_routines())\<close>: the tuple is built from left to right,
  so an unassigned \<open>ftype\<close> raises before the routines are listed.
\<close>

definition collect_routines ::
  "string list \<Rightarrow> py_error + (string \<times> string option \<times> (string \<times> nat \<times> nat) list)" where
  "collect_routines lines =
     (case detect_kind lines of
        (None, fname) \<Rightarrow> Inl (Raise UnboundLocalError ''ftype'')
      | (Some ftype, fname) \<Rightarrow>
          (case list_of_gen (iter_routines lines) of
             Inl e \<Rightarrow> Inl e
           | Inr routines \<Rightarrow> Inr (ftype, fname, routines)))"

section \<open>Lemmas on iter_statements\<close>

lemma iter_loop_continued_run:
  "\<forall>c \<in> set cs. continued c \<Longrightarrow>
     iter_loop buffer (cs @ rest) = iter_loop (buffer @ concat (map continuation_text cs)) rest"
  by (induction cs arbitrary: buffer) (simp_all add: continued_def continuation_text_def Let_def)

lemma length_iter_loop:
  "length (iter_loop buffer content) = Suc (length (filter (\<lambda>l. \<not> continued l) content))"
  by (induction content arbitrary: buffer) (simp_all add: continued_def Let_def)

lemma iter_loop_not_Nil: "iter_loop buffer content \<noteq> []"
  by (induction content arbitrary: buffer) (simp_all add: Let_def)

lemma last_iter_loop_complete:
  "content \<noteq> [] \<Longrightarrow> \<not> continued (last content) \<Longrightarrow> last (iter_loop buffer content) = []"
proof (induction content arbitrary: buffer)
  case Nil
  then show ?case by simp
next
  case (Cons l content)
  show ?case
  proof (cases "content = []")
    case True
    with Cons.prems show ?thesis by (simp add: continued_def Let_def)
  next
    case False
    with Cons.prems have "\<not> continued (last content)" by simp
    with False Cons.IH have "\<And>b. last (iter_loop b content) = []" by blast
    then show ?thesis by (simp add: Let_def iter_loop_not_Nil)
  qed
qed

lemma iter_loop_append_complete:
  "xs \<noteq> [] \<Longrightarrow> \<not> continued (last xs) \<Longrightarrow>
     iter_loop b (xs @ ys) = butlast (iter_loop b xs) @ iter_loop [] ys"
proof (induction xs arbitrary: b)
  case Nil
  then show ?case by simp
next
  case (Cons l xs)
  show ?case
  proof (cases "xs = []")
    case True
    with Cons.prems show ?thesis by (simp add: continued_def Let_def)
  next
    case False
    with Cons.prems have "\<not> continued (last xs)" by simp
    with False Cons.IH
    have "\<And>b. iter_loop b (xs @ ys) = butlast (iter_loop b xs) @ iter_loop [] ys" by blast
    then show ?thesis by (simp add: Let_def iter_loop_not_Nil)
  qed
qed

lemma last_iter_loop:
  "last (iter_loop b content) =
     (if \<forall>l \<in> set content. continued l then b else [])
       @ concat (map continuation_text (rev (takeWhile continued (rev content))))"
proof (induction content arbitrary: b rule: rev_induct)
  case Nil
  show ?case by simp
next
  case (snoc l content)
  show ?case
  proof (cases "continued l")
    case False
    then have "last (iter_loop b (content @ [l])) = []"
      using last_iter_loop_complete [of "content @ [l]" b] by simp
    with False show ?thesis by auto
  next
    case True
    show ?thesis
    proof (cases "\<forall>c \<in> set content. continued c")
      case all: True
      with True have run: "\<forall>c \<in> set (content @ [l]). continued c" by simp
      have tw: "takeWhile continued (rev (content @ [l])) = rev (content @ [l])"
        using run by (subst takeWhile_eq_all_conv) simp
      have "iter_loop b ((content @ [l]) @ []) =
              iter_loop (b @ concat (map continuation_text (content @ [l]))) []"
        using run by (rule iter_loop_continued_run)
      then have "last (iter_loop b (content @ [l])) =
                   b @ concat (map continuation_text (content @ [l]))"
        by simp
      then show ?thesis
        unfolding tw rev_rev_ident using run by simp
    next
      case some: False
      define pre where "pre = rev (dropWhile continued (rev content))"
      define run where "run = rev (takeWhile continued (rev content))"
      have split: "content = pre @ run"
        unfolding pre_def run_def
        by (metis rev_append rev_rev_ident takeWhile_dropWhile_id)
      have run_all: "\<forall>c \<in> set (run @ [l]). continued c"
        using True unfolding run_def by (auto dest: set_takeWhileD)
      have "dropWhile continued (rev content) \<noteq> []"
        using some by (simp add: dropWhile_eq_Nil_conv)
      then have pre_ne: "pre \<noteq> []" and pre_last: "\<not> continued (last pre)"
        unfolding pre_def
        by (simp_all add: last_rev hd_dropWhile)
      have "iter_loop b (content @ [l]) = butlast (iter_loop b pre) @ iter_loop [] (run @ [l])"
        using iter_loop_append_complete [OF pre_ne pre_last, of b "run @ [l]"]
        by (simp add: split)
      moreover have "iter_loop [] ((run @ [l]) @ []) =
                       iter_loop ([] @ concat (map continuation_text (run @ [l]))) []"
        using run_all by (rule iter_loop_continued_run)
      ultimately have "last (iter_loop b (content @ [l])) =
                         concat (map continuation_text (run @ [l]))"
        by simp
      with True some show ?thesis by (auto simp: run_def rev_map)
    qed
  qed
qed

section \<open>Lemmas on generators\<close>

lemma gen_bind_return: "gen_bind (gen_return x) f = f x"
  by (cases "f x") (simp add: gen_bind_def gen_return_def)

lemma gen_bind_raise: "gen_bind (gen_eval (Inl e)) f = ([], Inl e)"
  by (simp add: gen_bind_def gen_eval_def)

section \<open>Lemmas on interpret_statement\<close>

lemma interpret_statement_module:
  "interpret_statement s fs = ([], Inl (Raise AttributeError ''searchiter''))"
  by (simp add: interpret_statement_def interpret_statement_in_def module_bindings_def
      gen_bind_raise)


section \<open>Lemmas on collect_routines\<close>

lemma after_prefix_Some: "after_prefix p s = Some r \<longleftrightarrow> s = p @ r"
  by (auto simp: after_prefix_def startswith_def)
     (metis append_take_drop_id)

lemma isspace_not_prefix_char: "isspace c \<Longrightarrow> \<not> prefix_char c"
  by (auto simp: isspace_def prefix_char_def word_char_def Let_def)

lemma space_then_word_dollar: "at_dollar t \<Longrightarrow> space_then_word t = None"
  by (auto simp: at_dollar_def space_then_word_def isspace_def)

lemma function_tail_end: "at_dollar r \<Longrightarrow> function_tail (''end'' @ r) = None"
  by (simp add: function_tail_def after_prefix_def startswith_def)

lemma match_function_end_dollar: "at_dollar r \<Longrightarrow> match_function (''end'' @ r) = None"
  by (auto simp: at_dollar_def match_function_def function_tail_def after_prefix_def
      startswith_def prefix_char_def word_char_def isspace_def Let_def)

lemma match_function_end_keyword:
  assumes "takeWhile isspace r \<noteq> []"
    and "dropWhile isspace r = ''subroutine'' @ t \<or> dropWhile isspace r = ''function'' @ t"
    and "at_dollar t"
  shows "match_function (''end'' @ r) = None"
proof -
  from assms(1) obtain c r' where r: "r = c # r'" and c: "isspace c"
    by (cases r) (auto split: if_splits)
  have pc: "takeWhile prefix_char r = []" "dropWhile prefix_char r = r"
    using c by (simp_all add: r isspace_not_prefix_char)
  have e: "takeWhile prefix_char (''end'' @ r) = ''end''" "dropWhile prefix_char (''end'' @ r) = r"
    using pc by (simp_all add: prefix_char_def word_char_def)
  have tail: "function_tail (dropWhile isspace r) = None"
    using assms(2,3)
    by (auto simp: function_tail_def after_prefix_def startswith_def space_then_word_dollar)
  have "function_tail (''end'' @ r) = None"
    by (simp add: function_tail_def after_prefix_def startswith_def)
  with tail show ?thesis
    unfolding match_function_def Let_def e by simp
qed

lemma match_end_not_header:
  assumes "match_end s"
  shows "match_subroutine s = None \<and> match_function s = None"
proof -
  from assms obtain r where s: "s = ''end'' @ r"
    by (auto simp: match_end_def after_prefix_Some split: option.splits)
  have sub: "match_subroutine s = None"
    by (simp add: s match_subroutine_def after_prefix_def startswith_def)
  have ap: "after_prefix ''end'' s = Some r"
    by (simp add: s after_prefix_Some)
  from assms have cases:
    "at_dollar r \<or>
     (takeWhile isspace r \<noteq> [] \<and>
       (\<exists>t. at_dollar t \<and> (dropWhile isspace r = ''subroutine'' @ t \<or> dropWhile isspace r = ''function'' @ t)))"
    unfolding match_end_def ap Let_def
    by (auto simp: after_prefix_Some split: option.splits)
  then have "match_function s = None"
    unfolding s using match_function_end_dollar match_function_end_keyword by blast
  with sub show ?thesis by simp
qed

lemma iter_routines_loop_unbound:
  assumes "\<forall>l \<in> set pre. match_subroutine (normal_line l) = None \<and> match_function (normal_line l) = None"
    and "match_end (normal_line e)"
  shows "iter_routines_loop i None None (pre @ e # rest) = ([], Inl (Raise UnboundLocalError ''routine_name''))"
  using assms(1)
proof (induction pre arbitrary: i)
  case Nil
  from assms(2) show ?case
    by (simp add: match_end_not_header gen_bind_raise)
next
  case (Cons l pre)
  then have IH: "iter_routines_loop (Suc i) None None (pre @ e # rest) = ([], Inl (Raise UnboundLocalError ''routine_name''))"
    by simp
  from Cons.prems have "match_subroutine (normal_line l) = None" "match_function (normal_line l) = None"
    by simp_all
  then show ?case
    by (simp add: Let_def gen_bind_raise gen_bind_return IH)
qed

lemma detect_kind_no_header:
  "\<forall>l \<in> set lines. match_program (normal_line l) = None \<and> match_module (normal_line l) = None
      \<and> \<not> startswith ''subroutine'' (normal_line l) \<Longrightarrow> detect_kind lines = (None, None)"
  by (induction lines) simp_all

lemma detect_kind_program:
  "\<forall>l \<in> set pre. match_program (normal_line l) = None \<and> match_module (normal_line l) = None
      \<and> \<not> startswith ''subroutine'' (normal_line l) \<Longrightarrow>
   match_program (normal_line h) = Some name \<Longrightarrow>
   detect_kind (pre @ h # rest) = (Some ''program'', Some name)"
  by (induction pre) simp_all

lemma detect_kind_module:
  "\<forall>l \<in> set pre. match_program (normal_line l) = None \<and> match_module (normal_line l) = None
      \<and> \<not> startswith ''subroutine'' (normal_line l) \<Longrightarrow>
   match_program (normal_line h) = None \<Longrightarrow>
   match_module (normal_line h) = Some name \<Longrightarrow>
   detect_kind (pre @ h # rest) = (Some ''module'', Some name)"
  by (induction pre) simp_all

lemma subroutine_line_no_header:
  assumes "startswith ''subroutine'' s"
  shows "match_program s = None \<and> match_module s = None"
proof -
  from assms have "s = ''subroutine'' @ drop (length ''subroutine'') s"
    unfolding startswith_def by (metis append_take_drop_id)
  then obtain r where "s = ''subroutine'' @ r" ..
  then show ?thesis
    by (simp add: match_program_def match_module_def after_prefix_def startswith_def)
qed

lemma detect_kind_flat:
  "\<forall>l \<in> set pre. match_program (normal_line l) = None \<and> match_module (normal_line l) = None
      \<and> \<not> startswith ''subroutine'' (normal_line l) \<Longrightarrow>
   startswith ''subroutine'' (normal_line h) \<Longrightarrow>
   detect_kind (pre @ h # rest) = (Some ''flat'', None)"
  by (induction pre) (simp_all add: subroutine_line_no_header)

section \<open>The reconstructor: what is proved of iter_statements\<close>

text \<open>
  C3, as amended.  The number of statements yielded by \<open>iter_statements\<close> is the number of
  non-continued lines plus one: after the input is exhausted the buffer is always yielded
  as a final statement, and that statement is the text of the trailing run of continued
  lines, hence the empty string when the input is empty or ends with a non-continued line.
\<close>

theorem iter_statements_count_and_final:
  "length (iter_statements content) = Suc (length (filter (\<lambda>l. \<not> continued l) content))
   \<and> last (iter_statements content) =
       concat (map continuation_text (rev (takeWhile continued (rev content))))"
  by (simp add: iter_statements_def length_iter_loop last_iter_loop)

text \<open>
  C3 as the claim states it fails: one non-continued line gives two statements, the second
  being the empty buffer.
\<close>

theorem iter_statements_count_counterexample:
  "iter_statements [''x = 1''] = [''x = 1'', '''']
   \<and> length (filter (\<lambda>l. \<not> continued l) [''x = 1'']) = 1"
  by (simp add: iter_statements_def continued_def clean_line_def strip_def split_first_def
      endswith_amp_def isspace_def)

text \<open>
  C7.  Every line is cut at its first \<open>!\<close> and stripped (\<^const>\<open>clean_line\<close>); a run
  \<open>cs\<close> of continued lines, each without its marker, is gathered in the buffer without a
  statement being yielded, and composes with the line \<open>l\<close> that ends the run into exactly
  one statement; a run that the input ends in is yielded as exactly one statement.  The
  lines \<open>pre\<close> before the run are any lines that leave the buffer empty.
\<close>

theorem continuation_run_one_statement:
  assumes "pre = [] \<or> \<not> continued (last pre)"
    and "\<forall>c \<in> set cs. continued c"
    and "\<not> continued l"
  shows "iter_statements (pre @ cs @ l # rest) =
           butlast (iter_statements pre)
             @ (concat (map (\<lambda>c. butlast (strip (split_first CHR ''!'' c))) cs)
                  @ strip (split_first CHR ''!'' l))
             # iter_statements rest
         \<and> iter_statements (pre @ cs) =
             butlast (iter_statements pre)
               @ [concat (map (\<lambda>c. butlast (strip (split_first CHR ''!'' c))) cs)]"
proof -
  have ctext: "(\<lambda>c. butlast (strip (split_first CHR ''!'' c))) = continuation_text"
    by (simp add: continuation_text_def clean_line_def fun_eq_iff)
  have one: "iter_loop [] (cs @ l # rest) =
               (concat (map continuation_text cs) @ clean_line l) # iter_loop [] rest"
    using iter_loop_continued_run [OF assms(2), of "[]" "l # rest"] assms(3)
    by (simp add: continued_def Let_def)
  have fin: "iter_loop [] cs = [concat (map continuation_text cs)]"
    using iter_loop_continued_run [OF assms(2), of "[]" "[]"] by simp
  have pre: "iter_loop [] (pre @ ys) = butlast (iter_loop [] pre) @ iter_loop [] ys" for ys
  proof (cases "pre = []")
    case True
    then show ?thesis by simp
  next
    case False
    with assms(1) have "\<not> continued (last pre)" by simp
    with False show ?thesis by (rule iter_loop_append_complete)
  qed
  show ?thesis
    unfolding iter_statements_def ctext
    using pre [of "cs @ l # rest"] pre [of cs] one fin
    by (simp add: clean_line_def)
qed

theorem continuation_run_one_statement_witness:
  "\<not> continued (last [''x = 1''])
   \<and> continued ''a = b + & ! note'' \<and> continued '' c &''
   \<and> \<not> continued ''+ d''
   \<and> iter_statements ([''x = 1''] @ [''a = b + & ! note'', '' c &''] @ ''+ d'' # [''y &''])
       = [''x = 1'', ''a = b + c + d'', ''y '']"
proof -
  have h1: "[''x = 1''] = [] \<or> \<not> continued (last [''x = 1''])"
    by (simp add: continued_def clean_line_def strip_def split_first_def endswith_amp_def
        isspace_def)
  have h2: "\<forall>c \<in> set [''a = b + & ! note'', '' c &'']. continued c"
    by (simp add: continued_def clean_line_def strip_def split_first_def endswith_amp_def
        isspace_def)
  have h3: "\<not> continued ''+ d''"
    by (simp add: continued_def clean_line_def strip_def split_first_def endswith_amp_def
        isspace_def)
  have pre: "iter_statements [''x = 1''] = [''x = 1'', '''']"
    by (simp add: iter_statements_def clean_line_def strip_def split_first_def
        endswith_amp_def isspace_def)
  have rest: "iter_statements [''y &''] = [''y '']"
    by (simp add: iter_statements_def clean_line_def strip_def split_first_def
        endswith_amp_def isspace_def)
  have "iter_statements ([''x = 1''] @ [''a = b + & ! note'', '' c &''] @ ''+ d'' # [''y &''])
          = [''x = 1'', ''a = b + c + d'', ''y '']"
    using continuation_run_one_statement [OF h1 h2 h3, of "[''y &'']"]
    by (simp add: pre rest strip_def split_first_def isspace_def)
  with h1 h2 h3 show ?thesis by simp
qed

section \<open>The classifier: what is proved of interpret_statement\<close>

text \<open>
  C1.  The claim says that \<open>interpret_statement\<close> ends without error and yields a plain
  event.  On the code every run stops at the first statement after the lowercasing, where
  \<open>re.searchiter\<close> is read: nothing is yielded and \<open>AttributeError\<close> is raised, whatever
  the statement and the known names.
\<close>

theorem interpret_statement_never_yields:
  "fst (interpret_statement statement func_names) = []
   \<and> snd (interpret_statement statement func_names) = Inl (Raise AttributeError ''searchiter'')"
  by (simp add: interpret_statement_module)

text \<open>
  C5.  The claim says that a statement starting with \<open>call name\<close> gives a \<open>Jump\<close> event
  with a \<open>Call\<close> target.  On the code the statement \<open>call foo(x)\<close> gives no event: the run
  raises \<open>AttributeError\<close> before the \<open>call\<close> pattern is reached.
\<close>

theorem interpret_statement_call_raises:
  "interpret_statement ''call foo(x)'' [] = ([], Inl (Raise AttributeError ''searchiter''))"
  by (rule interpret_statement_module)


section \<open>The tracer: what is proved of follow_flow\<close>

text \<open>
  C2, as amended.  For every lookup function, start routine and start line,
  \<open>follow_flow\<close> raises the exception \<open>Exception("not implemented")\<close> when it is
  called and gives no statement; no call is resolved, so none is found unresolved.
\<close>

theorem follow_flow_not_implemented:
  "follow_flow routines start_routine start_line = Inl (Raise Exception ''not implemented'')"
  by (simp add: follow_flow_def)

text \<open>
  C2 as the claim states it fails: with a lookup function that does not know
  \<open>unknown_sub\<close> and a routine that calls it, the failure is the generic exception, raised
  before the first statement of the routine, and not a failure that names the call.
\<close>

theorem follow_flow_unresolved_call_counterexample:
  "one_routine ''unknown_sub'' 0 0 = None
   \<and> one_routine ''main'' 0 2 = Some [''x = 1'', ''call unknown_sub'', ''y = 2'']
   \<and> follow_flow one_routine ''main'' 0 = Inl (Raise Exception ''not implemented'')"
  by (simp add: one_routine_def follow_flow_def)

section \<open>The catalog builder: what is proved of collect_routines\<close>

text \<open>
  C4.  The claim says that the kind detection never fails and gives the flat kind with no
  name when no line matches.  On the code, when no line is a program header, a module
  header or a line starting with \<open>subroutine\<close>, the variable \<open>ftype\<close> is never assigned
  and the \<open>return\<close> statement raises \<open>UnboundLocalError\<close>.
\<close>

theorem collect_routines_no_header_raises:
  assumes "\<forall>l \<in> set lines. match_program (normal_line l) = None
             \<and> match_module (normal_line l) = None
             \<and> \<not> startswith ''subroutine'' (normal_line l)"
  shows "collect_routines lines = Inl (Raise UnboundLocalError ''ftype'')"
  using detect_kind_no_header [OF assms] by (simp add: collect_routines_def)

theorem collect_routines_no_header_raises_witness:
  "collect_routines [''x = 1''] = Inl (Raise UnboundLocalError ''ftype'')"
proof -
  have "\<forall>l \<in> set [''x = 1'']. match_program (normal_line l) = None
             \<and> match_module (normal_line l) = None
             \<and> \<not> startswith ''subroutine'' (normal_line l)"
    by (simp add: normal_line_def strip_def lower_def lower_char_def split_first_def
        isspace_def match_program_def match_module_def after_prefix_def startswith_def)
  then show ?thesis by (rule collect_routines_no_header_raises)
qed

text \<open>
  C8.  When a line matching the closing pattern comes before any subroutine or function
  header, listing the routines yields nothing and raises \<open>UnboundLocalError\<close> for
  \<open>routine_name\<close>, which is a \<open>NameError\<close>; so \<open>collect_routines\<close> raises it too, unless
  it has already raised for \<open>ftype\<close>, and in no case returns an empty list of routines.
\<close>

theorem iter_routines_end_before_header:
  assumes "\<forall>l \<in> set pre. match_subroutine (normal_line l) = None
             \<and> match_function (normal_line l) = None"
    and "match_end (normal_line e)"
  shows "iter_routines (pre @ e # rest) = ([], Inl (Raise UnboundLocalError ''routine_name''))
         \<and> list_of_gen (iter_routines (pre @ e # rest)) =
             Inl (Raise UnboundLocalError ''routine_name'')
         \<and> isinstance_exc (Raise UnboundLocalError ''routine_name'') NameError
         \<and> collect_routines (pre @ e # rest) =
             Inl (Raise UnboundLocalError
                   (if fst (detect_kind (pre @ e # rest)) = None then ''ftype''
                    else ''routine_name''))"
proof -
  have run: "iter_routines (pre @ e # rest) = ([], Inl (Raise UnboundLocalError ''routine_name''))"
    unfolding iter_routines_def using assms by (rule iter_routines_loop_unbound)
  then have listed: "list_of_gen (iter_routines (pre @ e # rest)) =
      Inl (Raise UnboundLocalError ''routine_name'')"
    by (simp add: list_of_gen_def)
  have "collect_routines (pre @ e # rest) =
          Inl (Raise UnboundLocalError
                (if fst (detect_kind (pre @ e # rest)) = None then ''ftype''
                 else ''routine_name''))"
    by (cases "detect_kind (pre @ e # rest)")
       (auto simp: collect_routines_def listed split: option.splits)
  with run listed show ?thesis by simp
qed

theorem iter_routines_end_before_header_witness:
  "collect_routines ([''program p''] @ ''end'' # []) =
     Inl (Raise UnboundLocalError ''routine_name'')"
proof -
  have h1: "\<forall>l \<in> set [''program p'']. match_subroutine (normal_line l) = None
             \<and> match_function (normal_line l) = None"
    by (simp add: normal_line_def strip_def lower_def lower_char_def split_first_def
        isspace_def match_subroutine_def match_function_def function_tail_def
        after_prefix_def startswith_def prefix_char_def word_char_def)
  have h2: "match_end (normal_line ''end'')"
    by (simp add: normal_line_def strip_def lower_def lower_char_def split_first_def
        isspace_def match_end_def at_dollar_def after_prefix_def startswith_def)
  have kind: "fst (detect_kind ([''program p''] @ ''end'' # [])) = Some ''program''"
    by (simp add: normal_line_def strip_def lower_def lower_char_def split_first_def
        isspace_def match_program_def after_prefix_def startswith_def space_then_word_def
        word_char_def)
  show ?thesis
    using iter_routines_end_before_header [OF h1 h2, of "[]"]
    by (simp only: kind option.distinct if_False)
qed

section \<open>The event classes: what is proved of EndOfBlock and LoopJump\<close>

text \<open>
  C9.  \<open>EndOfBlock(s)\<close> runs the initializer that \<open>EndOfBlock\<close> itself defines, which does
  not call the one of \<open>Event\<close>: the instance has no attribute, reading its \<open>statement\<close>
  raises \<open>AttributeError\<close>, and so does \<open>Event.__str__\<close>, the \<open>__str__\<close> that the instance
  uses.
\<close>

theorem EndOfBlock_has_no_statement:
  "resolve EndOfBlock ''__init__'' = Some EndOfBlock
   \<and> new EndOfBlock [VStr s] = Inr (VObj EndOfBlock [])
   \<and> getattr (VObj EndOfBlock []) ''statement'' = Inl (Raise AttributeError ''statement'')
   \<and> resolve EndOfBlock ''__str__'' = Some Event
   \<and> Event_str (VObj EndOfBlock []) = Inl (Raise AttributeError ''statement'')"
  by (simp add: new_def resolve_def)

text \<open>
  C10.  \<open>LoopJump\<close> defines \<open>__ini__\<close> and no \<open>__init__\<close>, so \<open>LoopJump(x)\<close> runs
  \<open>Event.__init__\<close>, which stores \<open>x\<close> as \<open>statement\<close>; a call with another number of
  arguments raises \<open>TypeError\<close>; whatever the arguments, an instance that the call gives
  has no attribute \<open>leave\<close>.
\<close>

theorem LoopJump_init_is_Event_init:
  "resolve LoopJump ''__init__'' = Some Event
   \<and> new LoopJump [x] = Event_init (VObj LoopJump []) [x]
   \<and> new LoopJump [x] = Inr (VObj LoopJump [(''statement'', x)])
   \<and> (case new LoopJump args of
         Inl e \<Rightarrow> e = Raise TypeError ''__init__''
       | Inr obj \<Rightarrow> getattr obj ''leave'' = Inl (Raise AttributeError ''leave''))"
proof -
  have "case new LoopJump args of
          Inl e \<Rightarrow> e = Raise TypeError ''__init__''
        | Inr obj \<Rightarrow> getattr obj ''leave'' = Inl (Raise AttributeError ''leave'')"
  proof (cases args)
    case Nil
    then show ?thesis by (simp add: new_def resolve_def)
  next
    case (Cons a rest)
    then show ?thesis by (cases rest) (simp_all add: new_def resolve_def)
  qed
  then show ?thesis by (simp add: new_def resolve_def)
qed

end
